theory Spec2Isabelle
  imports Complex_Main
begin

section \<open>Numbers, randomness and configuration\<close>

text \<open>
  The program computes with JavaScript numbers. They are modelled as mathematical reals:
  \<open>Math.sin\<close>, \<open>Math.cos\<close>, \<open>Math.sqrt\<close>, \<open>Math.cbrt\<close> and \<open>Math.acos\<close> are
  \<^const>\<open>sin\<close>, \<^const>\<open>cos\<close>, \<^const>\<open>sqrt\<close>, \<open>root 3\<close> and \<^const>\<open>arccos\<close>, and
  rounding (of doubles, and of the single-precision typed arrays) is abstracted away.
  \<open>Math.random()\<close> is a source of draws: \<open>random k\<close> is the value returned by the
  \<open>k\<close>-th call, and the number of calls made so far is threaded through the generator.
\<close>

definition PARTICLE_COUNT :: nat where
  "PARTICLE_COUNT = 4000"

section \<open>Shapes generator\<close>

text \<open>
  The body of the loop of \<open>generateShape\<close> (lines 24 to 70): the point of one particle and
  the number of draws consumed so far. The heart branch draws \<open>u\<close> and never uses it;
  an identifier that is none of the three shapes leaves \<open>x = 0, y = 0, z = 0\<close>.
\<close>

definition shape_point :: "string \<Rightarrow> (nat \<Rightarrow> real) \<Rightarrow> nat \<Rightarrow> (real \<times> real \<times> real) \<times> nat" where
  "shape_point type random k =
     (if type = ''heart'' then
        (let t = random k * pi * 2;
             u = random (k + 1) * pi;
             r = (2::real);
             hx = 16 * (sin t) ^ 3;
             hy = 13 * cos t - 5 * cos (2 * t) - 2 * cos (3 * t) - cos (4 * t);
             scale = 0.25;
             x = hx * scale;
             y = hy * scale;
             z = (random (k + 2) - 0.5) * 5 * sin t;
             dist = random (k + 3)
         in ((x * dist, y * dist, z * dist), k + 4))
      else if type = ''flower'' then
        (let theta = random k * pi * 2;
             phi = random (k + 1) * pi;
             kp = (4::real);
             r = 3 * cos (kp * theta) + 1;
             x = r * sin phi * cos theta;
             y = r * cos phi;
             z = r * sin phi * sin theta
         in ((x, y * 0.5, z), k + 2))
      else if type = ''fireworks'' then
        (let r = 4 * root 3 (random k);
             theta = random (k + 1) * 2 * pi;
             phi = arccos (2 * random (k + 2) - 1);
             x = r * sin phi * cos theta;
             y = r * sin phi * sin theta;
             z = r * cos phi
         in ((x, y, z), k + 3))
      else ((0, 0, 0), k))"

text \<open>
  Lines 72 to 74: the three stores of particle \<open>i\<close>. A store into a typed array outside
  its range is ignored, as \<^const>\<open>list_update\<close> is.
\<close>

definition store_point :: "nat \<Rightarrow> real \<times> real \<times> real \<Rightarrow> real list \<Rightarrow> real list" where
  "store_point i p positions =
     (let i3 = i * 3; x = fst p; y = fst (snd p); z = snd (snd p)
      in positions[i3 := x, i3 + 1 := y, i3 + 2 := z])"

text \<open>The \<open>for\<close> loop of \<open>generateShape\<close>, from index \<open>i\<close> on, after \<open>k\<close> draws.\<close>

function generateShape_loop ::
  "string \<Rightarrow> nat \<Rightarrow> (nat \<Rightarrow> real) \<Rightarrow> nat \<Rightarrow> nat \<Rightarrow> real list \<Rightarrow> real list" where
  "generateShape_loop type count random i k positions =
     (if i < count then
        generateShape_loop type count random (i + 1) (snd (shape_point type random k))
          (store_point i (fst (shape_point type random k)) positions)
      else positions)"
  by pat_completeness auto
termination
  by (relation "measure (\<lambda>(type, count, random, i, k, positions). count - i)") auto

text \<open>\<open>new Float32Array(count * 3)\<close> is filled with zeros.\<close>

definition generateShape :: "string \<Rightarrow> nat \<Rightarrow> (nat \<Rightarrow> real) \<Rightarrow> real list" where
  "generateShape type count random =
     generateShape_loop type count random 0 0 (replicate (count * 3) 0)"

section \<open>Application state\<close>

text \<open>
  \<open>stateRef\<close> is the mutable object shared by the animation loop and the perception
  callback (its colour is left out: no operation modelled here reads it). \<open>ui_state\<close>
  holds the two React state variables the callback sets.
\<close>

record stateRef =
  shape :: string
  targetPositions :: "real list"
  gestureFactor :: real

datatype hand_status = detected | searching

record ui_state =
  handStatus :: hand_status
  gestureValue :: real

definition initial_stateRef :: "(nat \<Rightarrow> real) \<Rightarrow> stateRef" where
  "initial_stateRef random =
     \<lparr>shape = ''heart'',
      targetPositions = generateShape ''heart'' PARTICLE_COUNT random,
      gestureFactor = 1.0\<rparr>"

definition initial_ui :: ui_state where
  "initial_ui = \<lparr>handStatus = searching, gestureValue = 0\<rparr>"

section \<open>Animation loop\<close>

definition targetScale :: "real \<Rightarrow> real" where
  "targetScale gf = 0.2 + (gf * 0.8)"

definition explosionFactor :: "real \<Rightarrow> real" where
  "explosionFactor gf = 0.5 + (gf * 2.5)"

text \<open>Lines 172 to 198 of \<open>animate\<close>: the target of particle \<open>i\<close> at elapsed time \<open>time\<close>.\<close>

definition particle_target :: "stateRef \<Rightarrow> real \<Rightarrow> nat \<Rightarrow> real \<times> real \<times> real \<Rightarrow> real \<times> real \<times> real" where
  "particle_target ref time i t0 =
     (let tx = fst t0; ty = fst (snd t0); tz = snd (snd t0);
          t1 = (if shape ref = ''fireworks'' then
                  (let tx = tx * explosionFactor (gestureFactor ref);
                       ty = ty * explosionFactor (gestureFactor ref);
                       tz = tz * explosionFactor (gestureFactor ref);
                       rotSpeed = 0.2;
                       x = tx * cos (time * rotSpeed) - tz * sin (time * rotSpeed);
                       z = tx * sin (time * rotSpeed) + tz * cos (time * rotSpeed)
                   in (x, ty, z))
                else
                  (tx * targetScale (gestureFactor ref),
                   ty * targetScale (gestureFactor ref),
                   tz * targetScale (gestureFactor ref)));
          tx = fst t1 + sin (time * 2 + real i) * 0.05;
          ty = fst (snd t1) + cos (time * 1.5 + real i) * 0.05;
          tz = snd (snd t1)
      in (tx, ty, tz))"

text \<open>Lines 201 to 203: \<open>positions[j] += (t - positions[j]) * 0.08\<close>.\<close>

definition lerp_step :: "real \<Rightarrow> real \<Rightarrow> real" where
  "lerp_step live target = live + (target - live) * 0.08"

text \<open>
  The body of the particle loop of \<open>animate\<close> (lines 169 to 203) for particle \<open>i\<close>. Both
  arrays are allocated with \<open>PARTICLE_COUNT * 3\<close> components, so every read is in range;
  the theorems about the loop assume these lengths.
\<close>

definition animate_particle :: "stateRef \<Rightarrow> real \<Rightarrow> nat \<Rightarrow> real list \<Rightarrow> real list" where
  "animate_particle ref time i positions =
     (let i3 = i * 3;
          target = targetPositions ref;
          t = particle_target ref time i (target ! i3, target ! (i3 + 1), target ! (i3 + 2));
          positions = positions[i3 := lerp_step (positions ! i3) (fst t)];
          positions = positions[i3 + 1 := lerp_step (positions ! (i3 + 1)) (fst (snd t))];
          positions = positions[i3 + 2 := lerp_step (positions ! (i3 + 2)) (snd (snd t))]
      in positions)"

text \<open>The loop over \<open>n\<close> particles, from index \<open>i\<close> on.\<close>

function animate_loop ::
  "stateRef \<Rightarrow> real \<Rightarrow> nat \<Rightarrow> nat \<Rightarrow> real list \<Rightarrow> real list" where
  "animate_loop ref time n i positions =
     (if i < n then animate_loop ref time n (i + 1) (animate_particle ref time i positions)
      else positions)"
  by pat_completeness auto
termination
  by (relation "measure (\<lambda>(ref, time, n, i, positions). n - i)") auto

definition animate :: "stateRef \<Rightarrow> real \<Rightarrow> real list \<Rightarrow> real list" where
  "animate ref time positions = animate_loop ref time PARTICLE_COUNT 0 positions"

text \<open>
  Successive animation frames: \<open>requestAnimationFrame\<close> calls \<open>animate\<close> once per display
  refresh, each time with the elapsed time of the clock, on the buffer the previous frame
  left. Here \<open>stateRef\<close> is not written between the frames.
\<close>

fun animate_ticks :: "stateRef \<Rightarrow> real list \<Rightarrow> real list \<Rightarrow> real list" where
  "animate_ticks ref [] positions = positions"
| "animate_ticks ref (time # elapsed) positions = animate_ticks ref elapsed (animate ref time positions)"

section \<open>Perception callback\<close>

datatype landmark = Landmark (lm_x: real) (lm_y: real) (lm_z: real)

text \<open>
  A perception result: \<open>multiHandLandmarks\<close> is absent (\<open>None\<close>) or a list of hands, each an
  array of landmarks in which an entry may be missing. Reading an index outside the array,
  or a hole, gives \<open>undefined\<close>, here \<open>None\<close>.
\<close>

record results =
  multiHandLandmarks :: "landmark option list list option"

definition landmark_at :: "landmark option list \<Rightarrow> nat \<Rightarrow> landmark option" where
  "landmark_at landmarks k = (if k < length landmarks then landmarks ! k else None)"

datatype js_error = TypeError

text \<open>
  The callback either returns or throws; in both cases the state it has written so far
  stays written.
\<close>

datatype outcome = Returned stateRef ui_state | Thrown js_error stateRef ui_state

text \<open>
  \<open>onResults\<close> (lines 224 to 257). The function is created inside an effect that runs once,
  on mount, so the identifier \<open>gestureValue\<close> in its body is the constant of the render that
  ran the effect, not the current React state: it is the parameter
  \<open>closure_gestureValue\<close> here,
  and the state it sets is the field of \<open>ui\<close>. \<open>now\<close> is \<open>Date.now()\<close>, in milliseconds.
  Reading \<open>.x\<close> of an undefined landmark throws a \<open>TypeError\<close>, after \<open>setHandStatus\<close>.
\<close>

definition onResults :: "real \<Rightarrow> results \<Rightarrow> int \<Rightarrow> stateRef \<Rightarrow> ui_state \<Rightarrow> outcome" where
  "onResults closure_gestureValue results now ref ui =
     (case multiHandLandmarks results of
        Some (landmarks # others) \<Rightarrow>
          (let ui = ui\<lparr>handStatus := detected\<rparr> in
           case landmark_at landmarks 4 of
             None \<Rightarrow> Thrown TypeError ref ui
           | Some thumb \<Rightarrow>
               (case landmark_at landmarks 8 of
                  None \<Rightarrow> Thrown TypeError ref ui
                | Some index \<Rightarrow>
                    (let dist = sqrt ((lm_x thumb - lm_x index) ^ 2 +
                                      (lm_y thumb - lm_y index) ^ 2 +
                                      (lm_z thumb - lm_z index) ^ 2);
                         factor = (dist - 0.03) / 0.15;
                         factor = max 0 (min 1 factor);
                         ref = ref\<lparr>gestureFactor :=
                                 gestureFactor ref + (factor - gestureFactor ref) * 0.2\<rparr>;
                         ui = (if \<bar>factor - closure_gestureValue\<bar> > 0.05
                               then ui\<lparr>gestureValue := factor\<rparr> else ui)
                     in Returned ref ui)))
      | _ \<Rightarrow>
          (let ui = ui\<lparr>handStatus := searching\<rparr>;
               time = real_of_int now / 1000;
               autoFactor = (sin (time * 2) + 1) / 2;
               ref = ref\<lparr>gestureFactor :=
                       gestureFactor ref + (autoFactor - gestureFactor ref) * 0.05\<rparr>
           in Returned ref ui))"

text \<open>
  The callback registered with the detector: \<open>useState(0)\<close> makes \<open>gestureValue\<close> equal to
  \<open>0\<close> in the render that runs the mount effect.
\<close>

definition registered_onResults :: "results \<Rightarrow> int \<Rightarrow> stateRef \<Rightarrow> ui_state \<Rightarrow> outcome" where
  "registered_onResults = onResults 0"

fun outcome_ref :: "outcome \<Rightarrow> stateRef" where
  "outcome_ref (Returned ref ui) = ref"
| "outcome_ref (Thrown e ref ui) = ref"

fun outcome_ui :: "outcome \<Rightarrow> ui_state" where
  "outcome_ui (Returned ref ui) = ui"
| "outcome_ui (Thrown e ref ui) = ui"

text \<open>
  A sequence of perception frames, each with the wall-clock time of its callback. An
  exception of one callback leaves the state as written and the next frame is processed.
\<close>

fun run_frames :: "(results \<times> int) list \<Rightarrow> stateRef \<times> ui_state \<Rightarrow> stateRef \<times> ui_state" where
  "run_frames [] s = s"
| "run_frames ((results, now) # frames) s =
     (let out = registered_onResults results now (fst s) (snd s)
      in run_frames frames (outcome_ref out, outcome_ui out))"

section \<open>The gesture processor as the specification words it\<close>

text \<open>
  The Euclidean distance of two landmarks, the clamp to the unit interval, the raw openness
  (distance minus the pinch baseline, over the open span, clamped) and the idle breathing
  target (a sinusoid of wall-clock seconds mapped into the unit interval).
\<close>

definition landmark_distance :: "landmark \<Rightarrow> landmark \<Rightarrow> real" where
  "landmark_distance a b =
     sqrt ((lm_x a - lm_x b)\<^sup>2 + (lm_y a - lm_y b)\<^sup>2 + (lm_z a - lm_z b)\<^sup>2)"

definition clamp01 :: "real \<Rightarrow> real" where
  "clamp01 v = (if v < 0 then 0 else if 1 < v then 1 else v)"

definition raw_openness :: "landmark \<Rightarrow> landmark \<Rightarrow> real" where
  "raw_openness thumb index = clamp01 ((landmark_distance thumb index - 0.03) / 0.15)"

definition idle_target :: "int \<Rightarrow> real" where
  "idle_target now = (sin (2 * (real_of_int now / 1000)) + 1) / 2"

section \<open>The generator and the animation as the specification words them\<close>

text \<open>
  The number of calls of \<open>Math.random()\<close> each branch of the generator makes for one
  point, the \<open>i\<close>-th point of a flat array, the \<open>c\<close>-th coordinate of a point, the
  Euclidean distance of a point from the origin, and a bound on the magnitude of the three coordinates of a point.
\<close>

definition draws_per_point :: "string \<Rightarrow> nat" where
  "draws_per_point type =
     (if type = ''heart'' then 4 else if type = ''flower'' then 2
      else if type = ''fireworks'' then 3 else 0)"

definition target_point :: "real list \<Rightarrow> nat \<Rightarrow> real \<times> real \<times> real" where
  "target_point target i = (target ! (3 * i), target ! (3 * i + 1), target ! (3 * i + 2))"

definition coordinate :: "nat \<Rightarrow> real \<times> real \<times> real \<Rightarrow> real" where
  "coordinate c p = (if c = 0 then fst p else if c = 1 then fst (snd p) else snd (snd p))"

definition distance_from_origin :: "real \<times> real \<times> real \<Rightarrow> real" where
  "distance_from_origin p = sqrt ((fst p)\<^sup>2 + (fst (snd p))\<^sup>2 + (snd (snd p))\<^sup>2)"

definition in_bound :: "real \<Rightarrow> real \<times> real \<times> real \<Rightarrow> bool" where
  "in_bound b p = (\<bar>fst p\<bar> \<le> b \<and> \<bar>fst (snd p)\<bar> \<le> b \<and> \<bar>snd (snd p)\<bar> \<le> b)"

text \<open>
  The per-particle target of a tick: uniform scaling, the rotation of the pair \<open>(x, z)\<close>
  about the vertical axis by the standard rotation matrix, and the jitter.
\<close>

definition scale3 :: "real \<Rightarrow> real \<times> real \<times> real \<Rightarrow> real \<times> real \<times> real" where
  "scale3 c p = (c * fst p, c * fst (snd p), c * snd (snd p))"

definition rotate_vertical :: "real \<Rightarrow> real \<times> real \<times> real \<Rightarrow> real \<times> real \<times> real" where
  "rotate_vertical a p =
     (cos a * fst p - sin a * snd (snd p), fst (snd p), sin a * fst p + cos a * snd (snd p))"

definition jitter :: "real \<Rightarrow> nat \<Rightarrow> real \<times> real \<times> real \<Rightarrow> real \<times> real \<times> real" where
  "jitter time i p =
     (fst p + 0.05 * sin (2 * time + real i), fst (snd p) + 0.05 * cos (1.5 * time + real i),
      snd (snd p))"

definition tick_target :: "string \<Rightarrow> real \<Rightarrow> real \<Rightarrow> nat \<Rightarrow> real \<times> real \<times> real \<Rightarrow> real \<times> real \<times> real" where
  "tick_target shp gf time i p =
     jitter time i
       (if shp = ''fireworks'' then rotate_vertical (time * 0.2) (scale3 (0.5 + gf * 2.5) p)
        else scale3 (0.2 + gf * 0.8) p)"

text \<open>\<open>k\<close> ticks of smoothing of one coordinate towards a target held fixed.\<close>

primrec smooth_ticks :: "nat \<Rightarrow> real \<Rightarrow> real \<Rightarrow> real" where
  "smooth_ticks 0 live target = live"
| "smooth_ticks (Suc k) live target = smooth_ticks k (lerp_step live target) target"

section \<open>Example inputs\<close>

text \<open>
  A hand of 21 landmarks, all at the origin but the thumb tip, at distance \<open>d\<close> on the
  first axis; a \<open>stateRef\<close> with a given gesture factor; a random source that always
  returns \<open>0\<close>, and one that always returns \<open>1 / 2\<close>.
\<close>

definition pinch_hand :: "real \<Rightarrow> landmark option list" where
  "pinch_hand d = (replicate 21 (Some (Landmark 0 0 0)))[4 := Some (Landmark d 0 0)]"

definition bare_ref :: "real \<Rightarrow> stateRef" where
  "bare_ref gf = \<lparr>shape = ''heart'', targetPositions = [], gestureFactor = gf\<rparr>"

definition zero_random :: "nat \<Rightarrow> real" where
  "zero_random k = 0"

definition half_random :: "nat \<Rightarrow> real" where
  "half_random k = 1 / 2"

section \<open>Properties of the gesture processor\<close>

lemma clamp01_range: "0 \<le> clamp01 v \<and> clamp01 v \<le> 1"
  by (simp add: clamp01_def)

lemma max_min_clamp01: "max 0 (min 1 v) = clamp01 v"
  by (simp add: clamp01_def max_def min_def)

lemma half_shift_range:
  fixes v :: real
  assumes "- 1 \<le> v" "v \<le> 1"
  shows "0 \<le> (v + 1) / 2 \<and> (v + 1) / 2 \<le> 1"
  using assms by auto

lemma idle_target_range: "0 \<le> idle_target now \<and> idle_target now \<le> 1"
  unfolding idle_target_def
  by (rule half_shift_range) (rule sin_ge_minus_one, rule sin_le_one)

lemma smooth_in_unit:
  fixes old goal w :: real
  assumes "0 \<le> old" "old \<le> 1" "0 \<le> goal" "goal \<le> 1" "0 \<le> w" "w \<le> 1"
  shows "0 \<le> old + (goal - old) * w \<and> old + (goal - old) * w \<le> 1"
proof -
  have eq: "old + (goal - old) * w = (1 - w) * old + w * goal"
    by (simp add: algebra_simps)
  have lo: "0 \<le> (1 - w) * old + w * goal"
    using assms by (intro add_nonneg_nonneg mult_nonneg_nonneg) simp_all
  have "(1 - w) * old \<le> (1 - w) * 1" "w * goal \<le> w * 1"
    using assms by (intro mult_left_mono; simp)+
  then have hi: "(1 - w) * old + w * goal \<le> 1" by simp
  from lo hi eq show ?thesis by simp
qed

lemma onResults_detected:
  assumes "multiHandLandmarks results = Some (landmarks # others)"
    and "landmark_at landmarks 4 = Some thumb"
    and "landmark_at landmarks 8 = Some index"
  shows "onResults g results now ref ui =
     Returned (ref\<lparr>gestureFactor := gestureFactor ref + (raw_openness thumb index - gestureFactor ref) * 0.2\<rparr>)
       (if \<bar>raw_openness thumb index - g\<bar> > 0.05
        then ui\<lparr>handStatus := detected, gestureValue := raw_openness thumb index\<rparr>
        else ui\<lparr>handStatus := detected\<rparr>)"
  using assms
  by (simp add: onResults_def Let_def raw_openness_def landmark_distance_def max_min_clamp01)

lemma onResults_idle:
  assumes "multiHandLandmarks results = None \<or> multiHandLandmarks results = Some []"
  shows "onResults g results now ref ui =
     Returned (ref\<lparr>gestureFactor := gestureFactor ref + (idle_target now - gestureFactor ref) * 0.05\<rparr>)
       (ui\<lparr>handStatus := searching\<rparr>)"
  using assms
  by (auto simp add: onResults_def Let_def idle_target_def mult.commute)

lemma onResults_malformed:
  assumes "multiHandLandmarks results = Some (landmarks # others)"
    and "landmark_at landmarks 4 = None \<or> landmark_at landmarks 8 = None"
  shows "onResults g results now ref ui = Thrown TypeError ref (ui\<lparr>handStatus := detected\<rparr>)"
  using assms
  by (auto simp add: onResults_def Let_def split: option.splits)

lemma onResults_unit:
  assumes "0 \<le> gestureFactor ref" "gestureFactor ref \<le> 1"
  shows "0 \<le> gestureFactor (outcome_ref (onResults g results now ref ui)) \<and>
         gestureFactor (outcome_ref (onResults g results now ref ui)) \<le> 1"
proof (cases "multiHandLandmarks results")
  case None
  then show ?thesis
    using smooth_in_unit [of "gestureFactor ref" "idle_target now" "0.05"] idle_target_range [of now] assms
    by (simp add: onResults_idle)
next
  case (Some hands)
  show ?thesis
  proof (cases hands)
    case Nil
    with Some show ?thesis
      using smooth_in_unit [of "gestureFactor ref" "idle_target now" "0.05"] idle_target_range [of now] assms
      by (simp add: onResults_idle)
  next
    case (Cons landmarks others)
    show ?thesis
    proof (cases "landmark_at landmarks 4 = None \<or> landmark_at landmarks 8 = None")
      case True
      with Some Cons assms show ?thesis by (simp add: onResults_malformed)
    next
      case False
      then obtain thumb index where "landmark_at landmarks 4 = Some thumb"
        "landmark_at landmarks 8 = Some index" by auto
      with Some Cons show ?thesis
        using smooth_in_unit [of "gestureFactor ref" "raw_openness thumb index" "0.2"]
          clamp01_range [of "(landmark_distance thumb index - 0.03) / 0.15"] assms
        by (simp add: onResults_detected raw_openness_def)
    qed
  qed
qed

lemma run_frames_unit:
  assumes "0 \<le> gestureFactor (fst s)" "gestureFactor (fst s) \<le> 1"
  shows "0 \<le> gestureFactor (fst (run_frames frames s)) \<and> gestureFactor (fst (run_frames frames s)) \<le> 1"
  using assms
proof (induction frames arbitrary: s)
  case Nil
  then show ?case by simp
next
  case (Cons f frames)
  obtain results now where f: "f = (results, now)" by (cases f)
  show ?case unfolding f
    using Cons.IH [of "(outcome_ref (registered_onResults results now (fst s) (snd s)), outcome_ui (registered_onResults results now (fst s) (snd s)))"]
      onResults_unit [OF Cons.prems, of 0 results now "snd s"]
    by (simp add: Let_def registered_onResults_def)
qed

text \<open>
  Claim C2. After any finite sequence of perception callbacks, started from the initial
  state, each one a detected-branch update with landmarks anywhere in space, an idle
  update at any wall-clock time, or a frame whose landmark set is incomplete, the stored
  \<open>gestureFactor\<close> lies in the unit interval.
\<close>

theorem gestureFactor_always_in_unit_interval:
  "0 \<le> gestureFactor (fst (run_frames frames (initial_stateRef random, initial_ui))) \<and>
   gestureFactor (fst (run_frames frames (initial_stateRef random, initial_ui))) \<le> 1"
  by (rule run_frames_unit) (simp_all add: initial_stateRef_def)

lemma pinch_hand_at:
  "landmark_at (pinch_hand d) 4 = Some (Landmark d 0 0)"
  "landmark_at (pinch_hand d) 8 = Some (Landmark 0 0 0)"
  by (simp_all add: landmark_at_def pinch_hand_def)

lemma pinch_distance: "landmark_distance (Landmark d 0 0) (Landmark 0 0 0) = \<bar>d\<bar>"
  by (simp add: landmark_distance_def)

lemma pinch_openness:
  assumes "3 / 100 \<le> d" "d \<le> 18 / 100"
  shows "raw_openness (Landmark d 0 0) (Landmark 0 0 0) = (d - 3 / 100) / (15 / 100)"
  using assms by (simp add: raw_openness_def pinch_distance clamp01_def)

text \<open>
  Claim C3. When a hand is present and its landmarks 4 (thumb tip) and 8 (index fingertip)
  exist, the callback returns, the stored factor becomes
  \<open>old + 0.2 * (raw - old)\<close> where \<open>raw\<close> is the Euclidean distance of the two landmarks,
  less \<open>0.03\<close>, over \<open>0.15\<close>, clamped to the unit interval, and \<open>handStatus\<close> is
  \<open>detected\<close>. This holds whatever value of \<open>gestureValue\<close> the callback compares with.
\<close>

theorem detected_branch_update:
  assumes "multiHandLandmarks results = Some (landmarks # others)"
    and "landmark_at landmarks 4 = Some thumb"
    and "landmark_at landmarks 8 = Some index"
  shows "onResults g results now ref ui =
           Returned
             (ref\<lparr>gestureFactor :=
                gestureFactor ref + 0.2 * (raw_openness thumb index - gestureFactor ref)\<rparr>)
             (if 0.05 < \<bar>raw_openness thumb index - g\<bar>
              then ui\<lparr>handStatus := detected, gestureValue := raw_openness thumb index\<rparr>
              else ui\<lparr>handStatus := detected\<rparr>) \<and>
         handStatus (outcome_ui (onResults g results now ref ui)) = detected \<and>
         0 \<le> raw_openness thumb index \<and> raw_openness thumb index \<le> 1"
  using assms clamp01_range [of "(landmark_distance thumb index - 0.03) / 0.15"]
  by (simp add: onResults_detected raw_openness_def mult.commute)

theorem detected_branch_update_witness:
  "onResults 0 \<lparr>multiHandLandmarks = Some [pinch_hand (105 / 1000)]\<rparr> 0 (bare_ref 1) initial_ui =
     Returned (bare_ref (9 / 10)) \<lparr>handStatus = detected, gestureValue = 1 / 2\<rparr>"
  using detected_branch_update [of "\<lparr>multiHandLandmarks = Some [pinch_hand (105 / 1000)]\<rparr>"
      "pinch_hand (105 / 1000)" "[]" "Landmark (105 / 1000) 0 0" "Landmark 0 0 0"
      0 0 "bare_ref 1" initial_ui]
  by (simp add: pinch_hand_at pinch_openness bare_ref_def initial_ui_def)

text \<open>
  Claim C7. When the hand list is absent or empty, the callback returns with \<open>handStatus\<close>
  set to \<open>searching\<close> and the stored factor moved to \<open>old + 0.05 * (auto - old)\<close>, where
  \<open>auto = (sin (2 * t) + 1) / 2\<close> for the wall-clock time \<open>t\<close> in seconds, a value of the
  unit interval.
\<close>

theorem idle_branch_update:
  assumes "multiHandLandmarks results = None \<or> multiHandLandmarks results = Some []"
  shows "onResults g results now ref ui =
           Returned
             (ref\<lparr>gestureFactor :=
                gestureFactor ref + 0.05 * (idle_target now - gestureFactor ref)\<rparr>)
             (ui\<lparr>handStatus := searching\<rparr>) \<and>
         0 \<le> idle_target now \<and> idle_target now \<le> 1"
  using assms idle_target_range [of now]
  by (simp add: onResults_idle mult.commute)

theorem idle_branch_update_witness:
  "onResults 0 \<lparr>multiHandLandmarks = None\<rparr> 0 (bare_ref 1) initial_ui =
     Returned (bare_ref (975 / 1000)) \<lparr>handStatus = searching, gestureValue = 0\<rparr>"
  using idle_branch_update [of "\<lparr>multiHandLandmarks = None\<rparr>" 0 0 "bare_ref 1" initial_ui]
  by (simp add: idle_target_def bare_ref_def initial_ui_def)

text \<open>
  Claim C8, as stated, fails: for a hand with an empty landmark set the callback does not
  take the idle branch. It has set \<open>handStatus\<close> to \<open>detected\<close> when reading the
  coordinates of the missing thumb tip throws.
\<close>

theorem malformed_landmarks_not_idle:
  "onResults 0 \<lparr>multiHandLandmarks = Some [[]]\<rparr> 0 (initial_stateRef zero_random) initial_ui =
     Thrown TypeError (initial_stateRef zero_random)
       \<lparr>handStatus = detected, gestureValue = 0\<rparr> \<and>
   onResults 0 \<lparr>multiHandLandmarks = Some [[]]\<rparr> 0 (initial_stateRef zero_random) initial_ui \<noteq>
     onResults 0 \<lparr>multiHandLandmarks = None\<rparr> 0 (initial_stateRef zero_random) initial_ui"
  by (simp add: onResults_def landmark_at_def initial_ui_def Let_def)

text \<open>
  Claim C8, amended. For every perception result with a hand whose landmark set lacks
  index 4 or index 8, the callback sets \<open>handStatus\<close> to \<open>detected\<close> and then throws a
  \<open>TypeError\<close>; the stored \<open>gestureFactor\<close> and the surfaced value are left as they were.
\<close>

theorem malformed_landmarks_throw:
  assumes "multiHandLandmarks results = Some (landmarks # others)"
    and "landmark_at landmarks 4 = None \<or> landmark_at landmarks 8 = None"
  shows "onResults g results now ref ui = Thrown TypeError ref (ui\<lparr>handStatus := detected\<rparr>)"
  using assms by (rule onResults_malformed)

theorem malformed_landmarks_throw_witness:
  "onResults 0 \<lparr>multiHandLandmarks = Some [take 8 (pinch_hand 1)]\<rparr> 0 (bare_ref 1) initial_ui =
     Thrown TypeError (bare_ref 1) \<lparr>handStatus = detected, gestureValue = 0\<rparr>"
  using malformed_landmarks_throw [of "\<lparr>multiHandLandmarks = Some [take 8 (pinch_hand 1)]\<rparr>"
      "take 8 (pinch_hand 1)" "[]" 0 0 "bare_ref 1" initial_ui]
  by (simp add: landmark_at_def pinch_hand_def initial_ui_def)

text \<open>
  Claim C9. The registered callback compares the new raw factor with the value of
  \<open>gestureValue\<close> of the first render, which is \<open>0\<close>, and not with the value last
  surfaced. From the initial state, a first frame with thumb and index \<open>0.105\<close> apart
  surfaces \<open>0.5\<close>; a second frame with the two \<open>0.108\<close> apart surfaces \<open>0.52\<close>, although
  that is only \<open>0.02\<close> away from the value last surfaced.
\<close>

theorem surfaced_value_follows_small_moves:
  "gestureValue (snd (run_frames
      [(\<lparr>multiHandLandmarks = Some [pinch_hand (105 / 1000)]\<rparr>, 0)]
      (initial_stateRef zero_random, initial_ui))) = 1 / 2 \<and>
   gestureValue (snd (run_frames
      [(\<lparr>multiHandLandmarks = Some [pinch_hand (105 / 1000)]\<rparr>, 0),
       (\<lparr>multiHandLandmarks = Some [pinch_hand (108 / 1000)]\<rparr>, 40)]
      (initial_stateRef zero_random, initial_ui))) = 52 / 100 \<and>
   \<bar>52 / 100 - 1 / 2\<bar> \<le> (0.05 :: real)"
  by (simp add: registered_onResults_def onResults_detected pinch_hand_at pinch_openness
      initial_ui_def Let_def)

text \<open>
  Had the callback been given the current value of \<open>gestureValue\<close>, a move of at most
  \<open>0.05\<close> would have left the surfaced value unchanged.
\<close>

lemma throttle_with_current_value:
  assumes "multiHandLandmarks results = Some (landmarks # others)"
    and "landmark_at landmarks 4 = Some thumb"
    and "landmark_at landmarks 8 = Some index"
    and "\<bar>raw_openness thumb index - gestureValue ui\<bar> \<le> 0.05"
  shows "gestureValue (outcome_ui (onResults (gestureValue ui) results now ref ui)) = gestureValue ui"
  using assms by (simp add: onResults_detected)

text \<open>
  Claim C10. In the initial state, whatever the random draws of the first point cloud, the
  stored \<open>gestureFactor\<close> is \<open>1\<close>, so that the breathing scalar of the animation loop is
  \<open>1\<close> and the explosion scalar is \<open>3\<close>.
\<close>

theorem initial_gestureFactor_fully_open:
  "gestureFactor (initial_stateRef random) = 1 \<and>
   targetScale (gestureFactor (initial_stateRef random)) = 1 \<and>
   explosionFactor (gestureFactor (initial_stateRef random)) = 3"
  by (simp add: initial_stateRef_def targetScale_def explosionFactor_def)

section \<open>Properties of the shapes generator\<close>

declare generateShape_loop.simps [simp del]

lemma shape_point_draws: "snd (shape_point type random k) = k + draws_per_point type"
  by (simp add: shape_point_def draws_per_point_def Let_def)

lemma store_point_length: "length (store_point i p ps) = length ps"
  by (simp add: store_point_def Let_def)

lemma store_point_other:
  assumes "m < 3 * i \<or> 3 * i + 2 < m"
  shows "store_point i p ps ! m = ps ! m"
  using assms by (auto simp add: store_point_def Let_def)

lemma store_point_at:
  assumes "3 * i + 2 < length ps"
  shows "target_point (store_point i p ps) i = p"
  using assms by (simp add: store_point_def Let_def target_point_def mult.commute)

lemma generateShape_loop_length:
  "length (generateShape_loop type count random i k ps) = length ps"
  by (induction type count random i k ps rule: generateShape_loop.induct)
    (subst generateShape_loop.simps, simp add: store_point_length)

lemma generateShape_loop_before:
  "m < 3 * i \<Longrightarrow> generateShape_loop type count random i k ps ! m = ps ! m"
proof (induction type count random i k ps rule: generateShape_loop.induct)
  case (1 type count random i k ps)
  show ?case
  proof (cases "i < count")
    case True
    have "generateShape_loop type count random i k ps ! m =
        generateShape_loop type count random (i + 1) (snd (shape_point type random k))
          (store_point i (fst (shape_point type random k)) ps) ! m"
      using True by (subst generateShape_loop.simps) simp
    also have "\<dots> = store_point i (fst (shape_point type random k)) ps ! m"
      using "1.IH" [OF True] "1.prems" by simp
    also have "\<dots> = ps ! m"
      using "1.prems" by (simp add: store_point_other)
    finally show ?thesis .
  next
    case False
    then show ?thesis by (subst generateShape_loop.simps) simp
  qed
qed

lemma target_point_cong:
  assumes "\<And>m. 3 * j \<le> m \<Longrightarrow> m \<le> 3 * j + 2 \<Longrightarrow> xs ! m = ys ! m"
  shows "target_point xs j = target_point ys j"
  using assms by (simp add: target_point_def)

lemma generateShape_loop_point:
  assumes "i \<le> j" "j < count" "3 * count \<le> length ps"
  shows "target_point (generateShape_loop type count random i k ps) j =
           fst (shape_point type random (k + draws_per_point type * (j - i)))"
  using assms
proof (induction type count random i k ps rule: generateShape_loop.induct)
  case (1 type count random i k ps)
  from "1.prems" have lt: "i < count" by simp
  let ?p = "shape_point type random k"
  have unfold: "generateShape_loop type count random i k ps =
      generateShape_loop type count random (i + 1) (snd ?p) (store_point i (fst ?p) ps)"
    using lt by (subst generateShape_loop.simps) simp
  show ?case
  proof (cases "i = j")
    case True
    have "target_point (generateShape_loop type count random (i + 1) (snd ?p) (store_point i (fst ?p) ps)) j
        = target_point (store_point i (fst ?p) ps) j"
      using True by (intro target_point_cong generateShape_loop_before) simp
    also have "\<dots> = fst ?p"
      using True "1.prems" by (simp add: store_point_at)
    finally show ?thesis using unfold True by simp
  next
    case False
    with "1.prems" have le: "i + 1 \<le> j" by simp
    then have eq: "draws_per_point type + draws_per_point type * (j - (i + 1)) = draws_per_point type * (j - i)"
      by (metis Suc_diff_le Suc_eq_plus1 diff_Suc_Suc mult_Suc_right)
    have "target_point (generateShape_loop type count random (i + 1) (snd ?p) (store_point i (fst ?p) ps)) j
        = fst (shape_point type random (snd ?p + draws_per_point type * (j - (i + 1))))"
      using "1.IH" [OF lt le] "1.prems" by (simp add: store_point_length)
    also have "\<dots> = fst (shape_point type random (k + draws_per_point type * (j - i)))"
      using eq by (simp add: shape_point_draws add.assoc)
    finally show ?thesis using unfold by simp
  qed
qed

lemma generateShape_length: "length (generateShape type count random) = count * 3"
  by (simp add: generateShape_def generateShape_loop_length)

lemma generateShape_point:
  assumes "j < count"
  shows "target_point (generateShape type count random) j =
           fst (shape_point type random (draws_per_point type * j))"
  using generateShape_loop_point [of 0 j count "replicate (count * 3) 0" type random 0] assms
  by (simp add: generateShape_def)

lemma abs_mult_le:
  fixes a b :: real
  assumes "\<bar>a\<bar> \<le> A" "\<bar>b\<bar> \<le> B"
  shows "\<bar>a * b\<bar> \<le> A * B"
proof -
  have "\<bar>a\<bar> * \<bar>b\<bar> \<le> A * B"
    using assms by (intro mult_mono) simp_all
  then show ?thesis by (simp add: abs_mult)
qed

lemma abs_sin_cube: "\<bar>(sin t) ^ 3\<bar> \<le> (1 :: real)"
proof -
  have "\<bar>sin t\<bar> ^ 3 \<le> 1 ^ 3"
    by (intro power_mono) simp_all
  then show ?thesis by (simp add: power_abs)
qed

lemma heart_curve_bound:
  "\<bar>13 * cos a - 5 * cos b - 2 * cos c - cos d\<bar> \<le> (21 :: real)"
  using cos_ge_minus_one [of a] cos_le_one [of a] cos_ge_minus_one [of b] cos_le_one [of b]
    cos_ge_minus_one [of c] cos_le_one [of c] cos_ge_minus_one [of d] cos_le_one [of d]
  by linarith

lemma petal_radius_bound: "\<bar>3 * cos a + 1\<bar> \<le> (4 :: real)"
  using cos_ge_minus_one [of a] cos_le_one [of a] by linarith

lemma unit_draw_centred:
  fixes u :: real
  assumes "0 \<le> u" "u < 1"
  shows "\<bar>u - 0.5\<bar> \<le> 1 / 2"
  using assms by linarith

lemma fireworks_radius:
  fixes u :: real
  assumes "0 \<le> u" "u < 1"
  shows "0 \<le> 4 * root 3 u \<and> 4 * root 3 u < 4"
proof -
  have "0 \<le> root 3 u" using assms by simp
  moreover have "root 3 u < 1"
    using assms real_root_less_mono [of 3 u 1] by simp
  ultimately show ?thesis by simp
qed

lemma heart_point_bound:
  assumes "\<forall>k. 0 \<le> random k \<and> random k < 1"
  shows "in_bound (21 / 4) (fst (shape_point ''heart'' random k))"
proof -
  let ?t = "random k * pi * 2"
  let ?d = "random (k + 3)"
  from assms have d: "\<bar>?d\<bar> \<le> 1" by (simp add: abs_le_iff less_imp_le order_trans [of "-1" 0])
  from assms have u: "\<bar>random (k + 2) - 0.5\<bar> \<le> 1 / 2" by (intro unit_draw_centred) simp_all
  have "\<bar>16 * (sin ?t) ^ 3\<bar> \<le> 16 * 1"
    using abs_mult_le [of 16 16 "(sin ?t) ^ 3" 1] abs_sin_cube [of ?t] by simp
  then have "\<bar>16 * (sin ?t) ^ 3 * 0.25\<bar> \<le> 16 * 1 * 0.25"
    by (rule abs_mult_le) simp_all
  then have "\<bar>16 * (sin ?t) ^ 3 * 0.25 * ?d\<bar> \<le> 16 * 1 * 0.25 * 1"
    using d by (rule abs_mult_le)
  then have x: "\<bar>16 * (sin ?t) ^ 3 * 0.25 * ?d\<bar> \<le> 21 / 4" by simp
  have "\<bar>(13 * cos ?t - 5 * cos (2 * ?t) - 2 * cos (3 * ?t) - cos (4 * ?t)) * 0.25\<bar> \<le> 21 * 0.25"
    by (rule abs_mult_le [OF heart_curve_bound]) simp
  then have "\<bar>(13 * cos ?t - 5 * cos (2 * ?t) - 2 * cos (3 * ?t) - cos (4 * ?t)) * 0.25 * ?d\<bar>
      \<le> 21 * 0.25 * 1"
    using d by (rule abs_mult_le)
  then have y: "\<bar>(13 * cos ?t - 5 * cos (2 * ?t) - 2 * cos (3 * ?t) - cos (4 * ?t)) * 0.25 * ?d\<bar>
      \<le> 21 / 4" by simp
  have "\<bar>(random (k + 2) - 0.5) * 5\<bar> \<le> 1 / 2 * 5"
    using u by (rule abs_mult_le) simp_all
  then have "\<bar>(random (k + 2) - 0.5) * 5 * sin ?t\<bar> \<le> 1 / 2 * 5 * 1"
    by (rule abs_mult_le) simp_all
  then have "\<bar>(random (k + 2) - 0.5) * 5 * sin ?t * ?d\<bar> \<le> 1 / 2 * 5 * 1 * 1"
    using d by (rule abs_mult_le)
  then have z: "\<bar>(random (k + 2) - 0.5) * 5 * sin ?t * ?d\<bar> \<le> 21 / 4" by simp
  have "shape_point ''heart'' random k =
      ((16 * (sin ?t) ^ 3 * 0.25 * ?d,
        (13 * cos ?t - 5 * cos (2 * ?t) - 2 * cos (3 * ?t) - cos (4 * ?t)) * 0.25 * ?d,
        (random (k + 2) - 0.5) * 5 * sin ?t * ?d), k + 4)"
    by (simp add: shape_point_def Let_def)
  with x y z show ?thesis
    by (simp only: in_bound_def fst_conv snd_conv)
qed

lemma flower_point_bound:
  "in_bound (21 / 4) (fst (shape_point ''flower'' random k))"
proof -
  let ?theta = "random k * pi * 2"
  let ?phi = "random (k + 1) * pi"
  let ?r = "3 * cos (4 * ?theta) + 1"
  have r: "\<bar>?r\<bar> \<le> 4" by (rule petal_radius_bound)
  have rs: "\<bar>?r * sin ?phi\<bar> \<le> 4 * 1"
    using r by (rule abs_mult_le) simp_all
  have "\<bar>?r * sin ?phi * cos ?theta\<bar> \<le> 4 * 1 * 1"
    using rs by (rule abs_mult_le) simp_all
  then have x: "\<bar>?r * sin ?phi * cos ?theta\<bar> \<le> 21 / 4" by simp
  have "\<bar>?r * cos ?phi\<bar> \<le> 4 * 1"
    using r by (rule abs_mult_le) simp_all
  then have "\<bar>?r * cos ?phi * 0.5\<bar> \<le> 4 * 1 * 0.5"
    by (rule abs_mult_le) simp_all
  then have y: "\<bar>?r * cos ?phi * 0.5\<bar> \<le> 21 / 4" by simp
  have "\<bar>?r * sin ?phi * sin ?theta\<bar> \<le> 4 * 1 * 1"
    using rs by (rule abs_mult_le) simp_all
  then have z: "\<bar>?r * sin ?phi * sin ?theta\<bar> \<le> 21 / 4" by simp
  have "shape_point ''flower'' random k =
      ((?r * sin ?phi * cos ?theta, ?r * cos ?phi * 0.5, ?r * sin ?phi * sin ?theta), k + 2)"
    by (simp add: shape_point_def Let_def)
  with x y z show ?thesis
    by (simp only: in_bound_def fst_conv snd_conv)
qed

lemma sphere_point_norm:
  fixes r a b :: real
  shows "(r * sin a * cos b)\<^sup>2 + (r * sin a * sin b)\<^sup>2 + (r * cos a)\<^sup>2 = r\<^sup>2"
proof -
  have "(r * sa * cb)\<^sup>2 + (r * sa * sb)\<^sup>2 + (r * ca)\<^sup>2 =
      r\<^sup>2 * (sa\<^sup>2 * (sb\<^sup>2 + cb\<^sup>2) + ca\<^sup>2)" for sa ca sb cb :: real
    by algebra
  then show ?thesis by simp
qed

lemma fireworks_point:
  "fst (shape_point ''fireworks'' random k) =
     (4 * root 3 (random k) * sin (arccos (2 * random (k + 2) - 1)) * cos (random (k + 1) * 2 * pi),
      4 * root 3 (random k) * sin (arccos (2 * random (k + 2) - 1)) * sin (random (k + 1) * 2 * pi),
      4 * root 3 (random k) * cos (arccos (2 * random (k + 2) - 1)))"
  by (simp add: shape_point_def Let_def)

lemma fireworks_point_distance:
  assumes "0 \<le> random k" "random k < 1"
  shows "distance_from_origin (fst (shape_point ''fireworks'' random k)) = 4 * root 3 (random k)"
proof -
  from fireworks_radius [OF assms] have "0 \<le> 4 * root 3 (random k)" by simp
  then have "sqrt ((4 * root 3 (random k))\<^sup>2) = 4 * root 3 (random k)"
    by (simp only: real_sqrt_abs abs_of_nonneg)
  then show ?thesis
    by (simp only: distance_from_origin_def fireworks_point fst_conv snd_conv sphere_point_norm)
qed

lemma fireworks_point_bound:
  assumes "\<forall>k. 0 \<le> random k \<and> random k < 1"
  shows "in_bound (21 / 4) (fst (shape_point ''fireworks'' random k))"
proof -
  let ?r = "4 * root 3 (random k)"
  let ?phi = "arccos (2 * random (k + 2) - 1)"
  let ?theta = "random (k + 1) * 2 * pi"
  from assms have "0 \<le> random k" "random k < 1" by simp_all
  from fireworks_radius [OF this] have r: "\<bar>?r\<bar> \<le> 4" by simp
  have rs: "\<bar>?r * sin ?phi\<bar> \<le> 4 * 1"
    using r by (rule abs_mult_le) simp_all
  have "\<bar>?r * sin ?phi * cos ?theta\<bar> \<le> 4 * 1 * 1"
    using rs by (rule abs_mult_le) simp_all
  then have x: "\<bar>?r * sin ?phi * cos ?theta\<bar> \<le> 21 / 4" by simp
  have "\<bar>?r * sin ?phi * sin ?theta\<bar> \<le> 4 * 1 * 1"
    using rs by (rule abs_mult_le) simp_all
  then have y: "\<bar>?r * sin ?phi * sin ?theta\<bar> \<le> 21 / 4" by simp
  have "\<bar>?r * cos ?phi\<bar> \<le> 4 * 1"
    using r by (rule abs_mult_le) simp_all
  then have z: "\<bar>?r * cos ?phi\<bar> \<le> 21 / 4" by simp
  from x y z show ?thesis
    by (simp only: in_bound_def fireworks_point fst_conv snd_conv)
qed

lemma other_point:
  assumes "type \<noteq> ''heart''" "type \<noteq> ''flower''" "type \<noteq> ''fireworks''"
  shows "fst (shape_point type random k) = (0, 0, 0)"
  using assms by (simp add: shape_point_def)

lemma shape_point_bound:
  assumes "\<forall>k. 0 \<le> random k \<and> random k < 1"
  shows "in_bound (21 / 4) (fst (shape_point type random k))"
proof -
  consider "type = ''heart''" | "type = ''flower''" | "type = ''fireworks''"
    | "type \<noteq> ''heart''" "type \<noteq> ''flower''" "type \<noteq> ''fireworks''"
    by blast
  then show ?thesis
  proof cases
    case 1
    then show ?thesis using heart_point_bound [OF assms] by simp
  next
    case 2
    then show ?thesis using flower_point_bound by simp
  next
    case 3
    then show ?thesis using fireworks_point_bound [OF assms] by simp
  next
    case 4
    then show ?thesis by (simp add: other_point in_bound_def)
  qed
qed

lemma set_update3:
  "set (ps[a := x, b := y, c := z]) \<subseteq> {x, y, z} \<union> set ps"
proof -
  have "set (ps[a := x]) \<subseteq> insert x (set ps)"
    by (rule set_update_subset_insert)
  moreover have "set (ps[a := x, b := y]) \<subseteq> insert y (set (ps[a := x]))"
    by (rule set_update_subset_insert)
  moreover have "set (ps[a := x, b := y, c := z]) \<subseteq> insert z (set (ps[a := x, b := y]))"
    by (rule set_update_subset_insert)
  ultimately show ?thesis by blast
qed

lemma store_point_bound:
  assumes "in_bound b p" "\<forall>v \<in> set ps. \<bar>v\<bar> \<le> b"
  shows "\<forall>v \<in> set (store_point i p ps). \<bar>v\<bar> \<le> b"
proof
  fix v
  assume v: "v \<in> set (store_point i p ps)"
  have "set (store_point i p ps) \<subseteq> {fst p, fst (snd p), snd (snd p)} \<union> set ps"
    unfolding store_point_def Let_def by (rule set_update3)
  with v have "v \<in> {fst p, fst (snd p), snd (snd p)} \<union> set ps" by blast
  with assms show "\<bar>v\<bar> \<le> b" by (auto simp add: in_bound_def)
qed

lemma generateShape_loop_bound:
  assumes "\<forall>k. in_bound b (fst (shape_point type random k))" "\<forall>v \<in> set ps. \<bar>v\<bar> \<le> b"
  shows "\<forall>v \<in> set (generateShape_loop type count random i k ps). \<bar>v\<bar> \<le> b"
  using assms
proof (induction type count random i k ps rule: generateShape_loop.induct)
  case (1 type count random i k ps)
  show ?case
  proof (cases "i < count")
    case True
    from "1.prems"(1) have "in_bound b (fst (shape_point type random k))" by simp
    then have "\<forall>v \<in> set (store_point i (fst (shape_point type random k)) ps). \<bar>v\<bar> \<le> b"
      using "1.prems"(2) by (rule store_point_bound)
    with "1.prems"(1) have "\<forall>v \<in> set (generateShape_loop type count random (i + 1)
        (snd (shape_point type random k)) (store_point i (fst (shape_point type random k)) ps)). \<bar>v\<bar> \<le> b"
      by (rule "1.IH" [OF True])
    then show ?thesis using True by (subst generateShape_loop.simps) simp
  next
    case False
    with "1.prems" show ?thesis by (subst generateShape_loop.simps) simp
  qed
qed

lemma update_replicate_same: "(replicate n x)[i := x] = replicate n x"
  by (induction n arbitrary: i) (simp_all split: nat.split)

lemma store_origin: "store_point i (0, 0, 0) (replicate n 0) = replicate n 0"
  by (simp add: store_point_def Let_def update_replicate_same)

lemma generateShape_loop_other:
  assumes "type \<noteq> ''heart''" "type \<noteq> ''flower''" "type \<noteq> ''fireworks''"
  shows "generateShape_loop type count random i k (replicate n 0) = replicate n 0"
proof -
  have "type \<noteq> ''heart'' \<Longrightarrow> type \<noteq> ''flower'' \<Longrightarrow> type \<noteq> ''fireworks'' \<Longrightarrow>
      ps = replicate n 0 \<Longrightarrow> generateShape_loop type count random i k ps = replicate n 0" for ps
  proof (induction type count random i k ps rule: generateShape_loop.induct)
    case (1 type count random i k ps)
    show ?case
    proof (cases "i < count")
      case True
      have "store_point i (fst (shape_point type random k)) ps = replicate n 0"
        using "1.prems" by (simp add: other_point store_origin)
      from "1.IH" [OF True "1.prems"(1-3) this] True show ?thesis
        by (subst generateShape_loop.simps) simp
    next
      case False
      with "1.prems" show ?thesis by (subst generateShape_loop.simps) simp
    qed
  qed
  with assms show ?thesis by simp
qed

text \<open>
  Claim C5. For every shape identifier and every count (so for 0, 1 and 4000), with draws
  in \<open>[0, 1)\<close>, \<open>generateShape\<close> returns an array of \<open>count * 3\<close> components, that
  is \<open>count\<close> points. Every component is finite: over the reals this is a bound on its
  magnitude (\<open>21 / 4\<close>, far inside the range of a float), together with the argument of
  \<open>Math.acos\<close> lying in \<open>[-1, 1]\<close>, the one operation of the generator that can produce a
  NaN. An identifier other than the three shapes gives the all-zero array.
\<close>

theorem generateShape_count_and_bounds:
  assumes "\<forall>k. 0 \<le> random k \<and> random k < 1"
  shows "length (generateShape type count random) = count * 3 \<and>
         (\<forall>v \<in> set (generateShape type count random). \<bar>v\<bar> \<le> 21 / 4) \<and>
         - 1 \<le> 2 * random k - 1 \<and> 2 * random k - 1 \<le> 1 \<and>
         (type \<noteq> ''heart'' \<and> type \<noteq> ''flower'' \<and> type \<noteq> ''fireworks'' \<longrightarrow>
            generateShape type count random = replicate (count * 3) 0)"
proof -
  have len: "length (generateShape type count random) = count * 3"
    by (rule generateShape_length)
  have "\<forall>k. in_bound (21 / 4) (fst (shape_point type random k))"
    using shape_point_bound [OF assms] by blast
  moreover have "\<forall>v \<in> set (replicate (count * 3) (0 :: real)). \<bar>v\<bar> \<le> 21 / 4"
    by simp
  ultimately have bound: "\<forall>v \<in> set (generateShape type count random). \<bar>v\<bar> \<le> 21 / 4"
    unfolding generateShape_def by (rule generateShape_loop_bound)
  from assms have "0 \<le> random k" "random k < 1" by simp_all
  then have dom: "- 1 \<le> 2 * random k - 1" "2 * random k - 1 \<le> 1" by simp_all
  have other: "type \<noteq> ''heart'' \<and> type \<noteq> ''flower'' \<and> type \<noteq> ''fireworks'' \<longrightarrow>
      generateShape type count random = replicate (count * 3) 0"
    by (simp add: generateShape_def generateShape_loop_other)
  from len bound dom other show ?thesis by blast
qed

theorem generateShape_count_and_bounds_witness:
  "length (generateShape ''star'' 4000 zero_random) = 12000 \<and>
   generateShape ''star'' 4000 zero_random = replicate 12000 0 \<and>
   length (generateShape ''heart'' 1 half_random) = 3 \<and>
   length (generateShape ''flower'' 0 half_random) = 0"
  using generateShape_count_and_bounds [of zero_random "''star''" 4000 0]
    generateShape_count_and_bounds [of half_random "''heart''" 1 0]
    generateShape_count_and_bounds [of half_random "''flower''" 0 0]
  by (simp add: zero_random_def half_random_def)

text \<open>
  Claim C6. With draws in \<open>[0, 1)\<close>, the \<open>j\<close>-th point of
  \<open>generateShape ''fireworks'' count\<close> lies at distance \<open>4 * root 3 u\<close> from the origin,
  where \<open>u\<close> is the first of the three draws of that point: the conversion to Cartesian
  coordinates keeps the radius, and the distance is at most \<open>4\<close>.
\<close>

theorem fireworks_within_sphere:
  assumes "\<forall>k. 0 \<le> random k \<and> random k < 1" and "j < count"
  shows "distance_from_origin (target_point (generateShape ''fireworks'' count random) j) =
           4 * root 3 (random (3 * j)) \<and>
         distance_from_origin (target_point (generateShape ''fireworks'' count random) j) \<le> 4"
proof -
  from assms(1) have u: "0 \<le> random (3 * j)" "random (3 * j) < 1" by simp_all
  have "target_point (generateShape ''fireworks'' count random) j =
      fst (shape_point ''fireworks'' random (3 * j))"
    using generateShape_point [OF assms(2), of "''fireworks''" random]
    by (simp add: draws_per_point_def)
  then have "distance_from_origin (target_point (generateShape ''fireworks'' count random) j) =
      4 * root 3 (random (3 * j))"
    using fireworks_point_distance [of random "3 * j"] u by simp
  with fireworks_radius [OF u] show ?thesis by simp
qed

theorem fireworks_within_sphere_witness:
  "distance_from_origin (target_point (generateShape ''fireworks'' 4000 half_random) 3999) =
     4 * root 3 (1 / 2) \<and>
   distance_from_origin (target_point (generateShape ''fireworks'' 4000 half_random) 3999) \<le> 4"
  using fireworks_within_sphere [of half_random 3999 4000]
  by (simp add: half_random_def)

section \<open>Properties of the animation loop\<close>

lemma lerp_step_error: "lerp_step live target - target = (live - target) * 0.92"
  by (simp add: lerp_step_def field_simps)

lemma smooth_ticks_error:
  "smooth_ticks k live target - target = (live - target) * 0.92 ^ k"
proof (induction k arbitrary: live)
  case 0
  show ?case by simp
next
  case (Suc k)
  have "smooth_ticks (Suc k) live target - target = (lerp_step live target - target) * 0.92 ^ k"
    using Suc.IH [of "lerp_step live target"] by simp
  also have "\<dots> = (live - target) * 0.92 ^ Suc k"
    by (simp only: lerp_step_error power_Suc mult.assoc)
  finally show ?case .
qed

lemma smooth_ticks_abs_error:
  "\<bar>smooth_ticks k live target - target\<bar> = \<bar>live - target\<bar> * 0.92 ^ k"
  by (simp add: smooth_ticks_error abs_mult)

lemma pow_092_50: "(0.92 :: real) ^ 50 \<le> 0.02"
  by (simp add: power_divide)

text \<open>
  The smoothing step iterated on one number, with the target fixed: the error shrinks by
  the factor \<open>0.92\<close> at each step.
\<close>

lemma smooth_ticks_converges:
  "lerp_step live target = live + 0.08 * (target - live) \<and>
   \<bar>smooth_ticks k live target - target\<bar> = \<bar>live - target\<bar> * 0.92 ^ k \<and>
   \<bar>smooth_ticks (Suc k) live target - target\<bar> \<le> \<bar>smooth_ticks k live target - target\<bar> \<and>
   \<bar>smooth_ticks 50 live target - target\<bar> \<le> 0.02 * \<bar>live - target\<bar>"
proof -
  have a: "lerp_step live target = live + 0.08 * (target - live)"
    by (simp add: lerp_step_def)
  have b: "\<bar>smooth_ticks k live target - target\<bar> = \<bar>live - target\<bar> * 0.92 ^ k" for k
    by (rule smooth_ticks_abs_error)
  have "\<bar>live - target\<bar> * (0.92 ^ k * 0.92) \<le> \<bar>live - target\<bar> * (0.92 ^ k * 1)"
    by (intro mult_left_mono) simp_all
  then have c: "\<bar>smooth_ticks (Suc k) live target - target\<bar> \<le> \<bar>smooth_ticks k live target - target\<bar>"
    by (simp only: b power_Suc2 mult_1_right)
  have "\<bar>live - target\<bar> * 0.92 ^ 50 \<le> \<bar>live - target\<bar> * 0.02"
    by (intro mult_left_mono pow_092_50) simp
  then have d: "\<bar>smooth_ticks 50 live target - target\<bar> \<le> 0.02 * \<bar>live - target\<bar>"
    by (simp only: b mult.commute)
  from a b c d show ?thesis by blast
qed

lemma rotate_vertical_norm:
  "(fst (rotate_vertical a p))\<^sup>2 + (snd (snd (rotate_vertical a p)))\<^sup>2 = (fst p)\<^sup>2 + (snd (snd p))\<^sup>2"
proof -
  have "(c * x - s * z)\<^sup>2 + (s * x + c * z)\<^sup>2 = (s\<^sup>2 + c\<^sup>2) * (x\<^sup>2 + z\<^sup>2)"
    for c s x z :: real
    by algebra
  then show ?thesis by (simp add: rotate_vertical_def)
qed

lemma rotate_vertical_add:
  "rotate_vertical a (rotate_vertical b p) = rotate_vertical (a + b) p"
  by (simp add: rotate_vertical_def cos_add sin_add algebra_simps)

lemma particle_target_tick_target:
  "particle_target ref time i p = tick_target (shape ref) (gestureFactor ref) time i p"
  by (simp add: particle_target_def tick_target_def jitter_def rotate_vertical_def scale3_def
      Let_def targetScale_def explosionFactor_def mult.commute)

declare animate_loop.simps [simp del]

lemma animate_particle_length: "length (animate_particle ref time i ps) = length ps"
  by (simp add: animate_particle_def Let_def)

lemma animate_particle_other:
  assumes "m < 3 * i \<or> 3 * i + 2 < m"
  shows "animate_particle ref time i ps ! m = ps ! m"
  using assms by (auto simp add: animate_particle_def Let_def)

lemma animate_particle_at:
  assumes "3 * i + 2 < length ps"
  shows "animate_particle ref time i ps ! (3 * i) =
           lerp_step (ps ! (3 * i)) (fst (particle_target ref time i (target_point (targetPositions ref) i)))"
    and "animate_particle ref time i ps ! Suc (3 * i) =
           lerp_step (ps ! Suc (3 * i)) (fst (snd (particle_target ref time i (target_point (targetPositions ref) i))))"
    and "animate_particle ref time i ps ! Suc (Suc (3 * i)) =
           lerp_step (ps ! Suc (Suc (3 * i))) (snd (snd (particle_target ref time i (target_point (targetPositions ref) i))))"
  using assms by (simp_all add: animate_particle_def Let_def target_point_def mult.commute)

lemma animate_loop_length: "length (animate_loop ref time n i ps) = length ps"
  by (induction ref time n i ps rule: animate_loop.induct)
    (subst animate_loop.simps, simp add: animate_particle_length)

lemma animate_loop_before:
  "m < 3 * i \<Longrightarrow> animate_loop ref time n i ps ! m = ps ! m"
proof (induction ref time n i ps rule: animate_loop.induct)
  case (1 ref time n i ps)
  show ?case
  proof (cases "i < n")
    case True
    have "animate_loop ref time n i ps ! m = animate_loop ref time n (i + 1) (animate_particle ref time i ps) ! m"
      using True by (subst animate_loop.simps) simp
    also have "\<dots> = animate_particle ref time i ps ! m"
      using "1.IH" [OF True] "1.prems" by simp
    also have "\<dots> = ps ! m"
      using "1.prems" by (simp add: animate_particle_other)
    finally show ?thesis .
  next
    case False
    then show ?thesis by (subst animate_loop.simps) simp
  qed
qed

lemma animate_loop_at:
  assumes "i \<le> j" "j < n" "3 * n \<le> length ps" "c < 3"
  shows "animate_loop ref time n i ps ! (3 * j + c) = animate_particle ref time j ps ! (3 * j + c)"
  using assms
proof (induction ref time n i ps rule: animate_loop.induct)
  case (1 ref time n i ps)
  from "1.prems" have lt: "i < n" by simp
  have unfold: "animate_loop ref time n i ps ! (3 * j + c) =
      animate_loop ref time n (i + 1) (animate_particle ref time i ps) ! (3 * j + c)"
    using lt by (subst animate_loop.simps) simp
  show ?case
  proof (cases "i = j")
    case True
    have "animate_loop ref time n (i + 1) (animate_particle ref time i ps) ! (3 * j + c) =
        animate_particle ref time i ps ! (3 * j + c)"
      using True "1.prems" by (intro animate_loop_before) simp
    with unfold True show ?thesis by simp
  next
    case False
    with "1.prems" have "i + 1 \<le> j" by simp
    then have "animate_loop ref time n (i + 1) (animate_particle ref time i ps) ! (3 * j + c) =
        animate_particle ref time j (animate_particle ref time i ps) ! (3 * j + c)"
      using "1.IH" [OF lt] "1.prems" by (simp add: animate_particle_length)
    also have "\<dots> = animate_particle ref time j ps ! (3 * j + c)"
    proof -
      from "1.prems" have c: "c = 0 \<or> c = 1 \<or> c = 2" by auto
      from "1.prems" have len: "3 * j + 2 < length ps" by simp
      from \<open>i + 1 \<le> j\<close> have far: "3 * i + 2 < 3 * j" by simp
      from c len far show ?thesis
        by (elim disjE)
          (simp_all add: animate_particle_at animate_particle_length animate_particle_other)
    qed
    finally show ?thesis using unfold by simp
  qed
qed

text \<open>
  Claim C1. For every particle index \<open>i\<close> below \<open>PARTICLE_COUNT\<close>, the target computed by
  the loop body is the one the specification describes (scaling by the explosion scalar and
  rotation about the vertical axis for fireworks, scaling by the breathing scalar otherwise,
  then the jitter on the first two coordinates), and one run of \<open>animate\<close> moves each of the
  three live coordinates of the particle towards that target by one smoothing step.
\<close>

theorem animate_moves_to_tick_target:
  assumes "i < PARTICLE_COUNT"
    and "length positions = PARTICLE_COUNT * 3"
    and "length (targetPositions ref) = PARTICLE_COUNT * 3"
  shows "particle_target ref time i (target_point (targetPositions ref) i) =
           tick_target (shape ref) (gestureFactor ref) time i (target_point (targetPositions ref) i) \<and>
         animate ref time positions ! (3 * i) =
           lerp_step (positions ! (3 * i))
             (fst (tick_target (shape ref) (gestureFactor ref) time i
                (target_point (targetPositions ref) i))) \<and>
         animate ref time positions ! (3 * i + 1) =
           lerp_step (positions ! (3 * i + 1))
             (fst (snd (tick_target (shape ref) (gestureFactor ref) time i
                (target_point (targetPositions ref) i)))) \<and>
         animate ref time positions ! (3 * i + 2) =
           lerp_step (positions ! (3 * i + 2))
             (snd (snd (tick_target (shape ref) (gestureFactor ref) time i
                (target_point (targetPositions ref) i))))"
proof -
  from assms have len: "3 * PARTICLE_COUNT \<le> length positions" "3 * i + 2 < length positions"
    by simp_all
  have at: "animate ref time positions ! (3 * i + c) = animate_particle ref time i positions ! (3 * i + c)"
    if "c < 3" for c
    unfolding animate_def using assms(1) len(1) that by (intro animate_loop_at) simp_all
  from at [of 0] at [of 1] at [of 2] len(2) show ?thesis
    by (simp add: animate_particle_at particle_target_tick_target)
qed

theorem animate_moves_to_tick_target_witness:
  "animate (initial_stateRef zero_random) 0 (replicate (PARTICLE_COUNT * 3) 0) ! (3 * 0 + 1) = 1 / 250"
proof -
  have p: "target_point (targetPositions (initial_stateRef zero_random)) 0 = (0, 0, 0)"
    using generateShape_point [of 0 PARTICLE_COUNT "''heart''" zero_random]
    by (simp add: initial_stateRef_def PARTICLE_COUNT_def shape_point_def zero_random_def)
  have "(0::nat) < PARTICLE_COUNT" by (simp add: PARTICLE_COUNT_def)
  moreover have "length (replicate (PARTICLE_COUNT * 3) (0::real)) = PARTICLE_COUNT * 3" by simp
  moreover have "length (targetPositions (initial_stateRef zero_random)) = PARTICLE_COUNT * 3"
    by (simp add: initial_stateRef_def generateShape_length)
  ultimately show ?thesis
    using animate_moves_to_tick_target [of 0 "replicate (PARTICLE_COUNT * 3) 0"
        "initial_stateRef zero_random" 0] p
    by (simp add: tick_target_def jitter_def scale3_def lerp_step_def initial_stateRef_def
        PARTICLE_COUNT_def)
qed

lemma animate_length: "length (animate ref time ps) = length ps"
  by (simp add: animate_def animate_loop_length)

lemma animate_coordinate:
  assumes "i < PARTICLE_COUNT" "length ps = PARTICLE_COUNT * 3" "c < 3"
  shows "animate ref time ps ! (3 * i + c) =
           lerp_step (ps ! (3 * i + c))
             (coordinate c (particle_target ref time i (target_point (targetPositions ref) i)))"
proof -
  from assms have len: "3 * PARTICLE_COUNT \<le> length ps" "3 * i + 2 < length ps"
    by simp_all
  have at: "animate ref time ps ! (3 * i + c) = animate_particle ref time i ps ! (3 * i + c)"
    unfolding animate_def using assms(1,3) len(1) by (intro animate_loop_at) simp_all
  from assms(3) have "c = 0 \<or> c = 1 \<or> c = 2" by auto
  then show ?thesis
    using at len(2) by (elim disjE) (simp_all add: animate_particle_at coordinate_def)
qed

lemma animate_ticks_length: "length (animate_ticks ref elapsed ps) = length ps"
  by (induction elapsed arbitrary: ps) (simp_all add: animate_length)

lemma animate_ticks_coordinate:
  assumes "i < PARTICLE_COUNT" "length ps = PARTICLE_COUNT * 3" "c < 3"
    and "\<forall>time \<in> set elapsed.
           coordinate c (particle_target ref time i (target_point (targetPositions ref) i)) = target"
  shows "animate_ticks ref elapsed ps ! (3 * i + c) = smooth_ticks (length elapsed) (ps ! (3 * i + c)) target"
  using assms(2,4)
proof (induction elapsed arbitrary: ps)
  case Nil
  show ?case by simp
next
  case (Cons time elapsed)
  have len: "length (animate ref time ps) = PARTICLE_COUNT * 3"
    using Cons.prems(1) by (simp add: animate_length)
  have rest: "\<forall>time \<in> set elapsed.
      coordinate c (particle_target ref time i (target_point (targetPositions ref) i)) = target"
    using Cons.prems(2) by simp
  have "animate_ticks ref (time # elapsed) ps ! (3 * i + c) =
      smooth_ticks (length elapsed) (animate ref time ps ! (3 * i + c)) target"
    using Cons.IH [OF len rest] by simp
  also have "animate ref time ps ! (3 * i + c) = lerp_step (ps ! (3 * i + c)) target"
    using animate_coordinate [OF assms(1) Cons.prems(1) assms(3), of ref time] Cons.prems(2)
    by simp
  finally show ?case by simp
qed

lemma pow_092_step: "(0.92 :: real) ^ Suc k \<le> 0.92 ^ k"
  by (rule power_decreasing) simp_all

lemma pow_092_mono:
  assumes "k \<le> m"
  shows "(0.92 :: real) ^ m \<le> 0.92 ^ k"
  using assms by (rule power_decreasing) simp_all

text \<open>
  Claim C4. One run of \<open>animate\<close> moves each live coordinate of each particle by
  \<open>0.08 * (target - live)\<close>. Over successive frames during which the target of that
  coordinate stays the same, the error after \<open>k\<close> frames is the initial error times
  \<open>0.92 ^ k\<close>, it never grows from one frame to the next, and after 50 frames it is at
  most 2 percent of the initial error.
\<close>

theorem animate_smoothing_converges:
  assumes "i < PARTICLE_COUNT"
    and "length positions = PARTICLE_COUNT * 3"
    and "length (targetPositions ref) = PARTICLE_COUNT * 3"
    and "c < 3"
    and "\<forall>time \<in> set elapsed.
           coordinate c (particle_target ref time i (target_point (targetPositions ref) i)) = target"
  shows "animate ref time positions ! (3 * i + c) =
           positions ! (3 * i + c) +
           0.08 * (coordinate c (particle_target ref time i (target_point (targetPositions ref) i)) -
                   positions ! (3 * i + c)) \<and>
         \<bar>animate_ticks ref elapsed positions ! (3 * i + c) - target\<bar> =
           \<bar>positions ! (3 * i + c) - target\<bar> * 0.92 ^ length elapsed \<and>
         \<bar>animate_ticks ref (take (Suc k) elapsed) positions ! (3 * i + c) - target\<bar> \<le>
           \<bar>animate_ticks ref (take k elapsed) positions ! (3 * i + c) - target\<bar> \<and>
         (length elapsed = 50 \<longrightarrow>
            \<bar>animate_ticks ref elapsed positions ! (3 * i + c) - target\<bar> \<le>
              0.02 * \<bar>positions ! (3 * i + c) - target\<bar>)"
proof -
  let ?j = "3 * i + c"
  have one: "animate ref time positions ! ?j =
      positions ! ?j +
      0.08 * (coordinate c (particle_target ref time i (target_point (targetPositions ref) i)) -
              positions ! ?j)"
    using animate_coordinate [OF assms(1,2,4), of ref time] by (simp add: lerp_step_def)
  have err: "\<bar>animate_ticks ref ts positions ! ?j - target\<bar> =
      \<bar>positions ! ?j - target\<bar> * 0.92 ^ length ts" if "set ts \<subseteq> set elapsed" for ts
  proof -
    from that assms(5) have "\<forall>time \<in> set ts.
        coordinate c (particle_target ref time i (target_point (targetPositions ref) i)) = target"
      by blast
    from animate_ticks_coordinate [OF assms(1,2,4) this] show ?thesis
      by (simp only: smooth_ticks_abs_error)
  qed
  have all: "\<bar>animate_ticks ref elapsed positions ! ?j - target\<bar> =
      \<bar>positions ! ?j - target\<bar> * 0.92 ^ length elapsed"
    by (rule err) simp
  have "length (take k elapsed) \<le> length (take (Suc k) elapsed)" by simp
  then have "(0.92 :: real) ^ length (take (Suc k) elapsed) \<le> 0.92 ^ length (take k elapsed)"
    by (rule pow_092_mono)
  then have "\<bar>positions ! ?j - target\<bar> * 0.92 ^ length (take (Suc k) elapsed) \<le>
      \<bar>positions ! ?j - target\<bar> * 0.92 ^ length (take k elapsed)"
    by (rule mult_left_mono) simp
  then have mono: "\<bar>animate_ticks ref (take (Suc k) elapsed) positions ! ?j - target\<bar> \<le>
      \<bar>animate_ticks ref (take k elapsed) positions ! ?j - target\<bar>"
    using err [of "take (Suc k) elapsed"] err [of "take k elapsed"]
    by (simp only: set_take_subset)
  have fifty: "length elapsed = 50 \<longrightarrow>
      \<bar>animate_ticks ref elapsed positions ! ?j - target\<bar> \<le> 0.02 * \<bar>positions ! ?j - target\<bar>"
  proof
    assume l: "length elapsed = 50"
    have "\<bar>positions ! ?j - target\<bar> * 0.92 ^ 50 \<le> \<bar>positions ! ?j - target\<bar> * 0.02"
      by (intro mult_left_mono pow_092_50) simp
    with all l show "\<bar>animate_ticks ref elapsed positions ! ?j - target\<bar> \<le>
        0.02 * \<bar>positions ! ?j - target\<bar>"
      by (simp only: mult.commute)
  qed
  from one all mono fifty show ?thesis by blast
qed

theorem animate_smoothing_converges_witness:
  "\<bar>animate_ticks (initial_stateRef zero_random) (replicate 50 0)
      (replicate (PARTICLE_COUNT * 3) 0) ! (3 * 0 + 1) - 1 / 20\<bar> \<le> 1 / 1000 \<and>
   animate (initial_stateRef zero_random) 0 (replicate (PARTICLE_COUNT * 3) 0) ! (3 * 0 + 1) = 1 / 250"
proof -
  have p: "target_point (targetPositions (initial_stateRef zero_random)) 0 = (0, 0, 0)"
    using generateShape_point [of 0 PARTICLE_COUNT "''heart''" zero_random]
    by (simp add: initial_stateRef_def PARTICLE_COUNT_def shape_point_def zero_random_def)
  have t: "coordinate 1 (particle_target (initial_stateRef zero_random) 0 0
      (target_point (targetPositions (initial_stateRef zero_random)) 0)) = 1 / 20"
  proof -
    have "shape (initial_stateRef zero_random) = ''heart''"
      "gestureFactor (initial_stateRef zero_random) = 1"
      by (simp_all add: initial_stateRef_def)
    then show ?thesis
      by (simp add: p particle_target_tick_target coordinate_def tick_target_def jitter_def
          scale3_def)
  qed
  have h1: "(0::nat) < PARTICLE_COUNT" by (simp add: PARTICLE_COUNT_def)
  have h2: "length (replicate (PARTICLE_COUNT * 3) (0::real)) = PARTICLE_COUNT * 3" by simp
  have h3: "length (targetPositions (initial_stateRef zero_random)) = PARTICLE_COUNT * 3"
    by (simp add: initial_stateRef_def generateShape_length)
  have h4: "(1::nat) < 3" by simp
  have h5: "\<forall>time \<in> set (replicate 50 (0::real)).
      coordinate 1 (particle_target (initial_stateRef zero_random) time 0
        (target_point (targetPositions (initial_stateRef zero_random)) 0)) = 1 / 20"
    using t by simp
  have z: "replicate (PARTICLE_COUNT * 3) (0::real) ! (3 * 0 + 1) = 0"
    by (simp add: PARTICLE_COUNT_def)
  note th = animate_smoothing_converges [OF h1 h2 h3 h4 h5, of 0 0, unfolded t z]
  from th have one: "animate (initial_stateRef zero_random) 0
      (replicate (PARTICLE_COUNT * 3) 0) ! (3 * 0 + 1) = 0 + 0.08 * (1 / 20 - 0)"
    by (rule conjunct1)
  from th have "length (replicate 50 (0::real)) = 50 \<longrightarrow>
      \<bar>animate_ticks (initial_stateRef zero_random) (replicate 50 0)
        (replicate (PARTICLE_COUNT * 3) 0) ! (3 * 0 + 1) - 1 / 20\<bar> \<le> 0.02 * \<bar>0 - 1 / 20\<bar>"
    by blast
  with one show ?thesis by simp
qed

end
